theory Spec2Isabelle
  imports Complex_Main
begin

section \<open>Floating-point values\<close>

text \<open>
  The kernels of dsps compute on JAX floating-point arrays. A value is modelled as a
  real number or one of the three IEEE-754 special values, so that the results of
  singular operations (a division by zero, the logarithm of a non-positive number) are
  values of the model as they are values of the program, which never raises on them.
  Rounding, overflow, underflow and the sign of zero are not modelled: an operation on
  two numbers is the exact real operation, and every zero is the positive zero. The
  program's binary floating-point results differ from the exact ones by rounding, and
  by overflow to infinity or underflow to zero at the ends of the range. The properties
  proved below are therefore about signs, special values, branches taken, shapes and
  operations that are exact in binary floating point as well; none of them is an
  identity or a strict inequality that holds only without rounding. The values
  computed in the examples are the exact ones, which the program approximates.
\<close>

datatype fl = Fin real | PInf | NInf | NaN

fun fneg :: "fl \<Rightarrow> fl" where
  "fneg (Fin a) = Fin (- a)"
| "fneg PInf = NInf"
| "fneg NInf = PInf"
| "fneg NaN = NaN"

fun fadd :: "fl \<Rightarrow> fl \<Rightarrow> fl" where
  "fadd (Fin a) (Fin b) = Fin (a + b)"
| "fadd NaN y = NaN"
| "fadd x NaN = NaN"
| "fadd PInf NInf = NaN"
| "fadd NInf PInf = NaN"
| "fadd PInf y = PInf"
| "fadd x PInf = PInf"
| "fadd NInf y = NInf"
| "fadd x NInf = NInf"

definition fsub :: "fl \<Rightarrow> fl \<Rightarrow> fl" where
  "fsub x y = fadd x (fneg y)"

fun fmul :: "fl \<Rightarrow> fl \<Rightarrow> fl" where
  "fmul (Fin a) (Fin b) = Fin (a * b)"
| "fmul NaN y = NaN"
| "fmul x NaN = NaN"
| "fmul PInf (Fin b) = (if b = 0 then NaN else if 0 < b then PInf else NInf)"
| "fmul NInf (Fin b) = (if b = 0 then NaN else if 0 < b then NInf else PInf)"
| "fmul (Fin a) PInf = (if a = 0 then NaN else if 0 < a then PInf else NInf)"
| "fmul (Fin a) NInf = (if a = 0 then NaN else if 0 < a then NInf else PInf)"
| "fmul PInf PInf = PInf"
| "fmul PInf NInf = NInf"
| "fmul NInf PInf = NInf"
| "fmul NInf NInf = PInf"

fun fdiv :: "fl \<Rightarrow> fl \<Rightarrow> fl" where
  "fdiv (Fin a) (Fin b) =
     (if b = 0 then (if a = 0 then NaN else if 0 < a then PInf else NInf)
      else Fin (a / b))"
| "fdiv NaN y = NaN"
| "fdiv x NaN = NaN"
| "fdiv (Fin a) PInf = Fin 0"
| "fdiv (Fin a) NInf = Fin 0"
| "fdiv PInf (Fin b) = (if 0 \<le> b then PInf else NInf)"
| "fdiv NInf (Fin b) = (if 0 \<le> b then NInf else PInf)"
| "fdiv PInf PInf = NaN"
| "fdiv PInf NInf = NaN"
| "fdiv NInf PInf = NaN"
| "fdiv NInf NInf = NaN"

text \<open>Comparisons: every comparison with NaN is false.\<close>

fun flt :: "fl \<Rightarrow> fl \<Rightarrow> bool" where
  "flt (Fin a) (Fin b) = (a < b)"
| "flt NaN y = False"
| "flt x NaN = False"
| "flt x NInf = False"
| "flt PInf y = False"
| "flt NInf y = True"
| "flt x PInf = True"

definition feq :: "fl \<Rightarrow> fl \<Rightarrow> bool" where
  "feq x y = (x = y \<and> x \<noteq> NaN)"

text \<open>
  \<open>x ** n\<close> with a Python integer exponent is computed by repeated multiplication.
\<close>

primrec fpowi :: "fl \<Rightarrow> nat \<Rightarrow> fl" where
  "fpowi x 0 = Fin 1"
| "fpowi x (Suc n) = fmul x (fpowi x n)"

text \<open>
  \<open>x ** y\<close> with a floating-point exponent is the IEEE-754 \<open>pow\<close>: the result is 1
  for every base when the exponent is zero and for every exponent when the base is 1,
  also when the other argument is NaN.
\<close>

definition odd_int :: "real \<Rightarrow> bool" where
  "odd_int y = (of_int \<lfloor>y\<rfloor> = y \<and> odd \<lfloor>y\<rfloor>)"

fun fpow :: "fl \<Rightarrow> fl \<Rightarrow> fl" where
  "fpow x (Fin y) =
     (if y = 0 then Fin 1
      else (case x of
              NaN \<Rightarrow> NaN
            | PInf \<Rightarrow> (if y < 0 then Fin 0 else PInf)
            | NInf \<Rightarrow> (if y < 0 then Fin 0 else if odd_int y then NInf else PInf)
            | Fin a \<Rightarrow>
                (if a = 0 then (if y < 0 then PInf else Fin 0)
                 else if 0 < a then Fin (a powr y)
                 else if of_int \<lfloor>y\<rfloor> = y
                   then Fin ((if odd \<lfloor>y\<rfloor> then - 1 else 1) * ((- a) powr y))
                 else NaN)))"
| "fpow x NaN = (if x = Fin 1 then Fin 1 else NaN)"
| "fpow x PInf =
     (case x of
        NaN \<Rightarrow> NaN
      | Fin a \<Rightarrow> (if \<bar>a\<bar> < 1 then Fin 0 else if \<bar>a\<bar> = 1 then Fin 1 else PInf)
      | _ \<Rightarrow> PInf)"
| "fpow x NInf =
     (case x of
        NaN \<Rightarrow> NaN
      | Fin a \<Rightarrow> (if \<bar>a\<bar> < 1 then PInf else if \<bar>a\<bar> = 1 then Fin 1 else Fin 0)
      | _ \<Rightarrow> Fin 0)"

fun flog10 :: "fl \<Rightarrow> fl" where
  "flog10 (Fin a) = (if 0 < a then Fin (log 10 a) else if a = 0 then NInf else NaN)"
| "flog10 PInf = PInf"
| "flog10 NInf = NaN"
| "flog10 NaN = NaN"

text \<open>\<open>jnp.where(c, a, b)\<close> on one element.\<close>

definition fwhere :: "bool \<Rightarrow> fl \<Rightarrow> fl \<Rightarrow> fl" where
  "fwhere c a b = (if c then a else b)"

section \<open>Dust attenuation kernels (dsps/dust/attenuation\_kernels.py)\<close>

text \<open>
  The curves are elementwise functions of the wavelength array; the model is the
  function of one element.
\<close>

definition RV_C00 :: fl where
  "RV_C00 = Fin 4.05"

definition attenuation_curve :: "fl \<Rightarrow> fl \<Rightarrow> fl \<Rightarrow> fl" where
  "attenuation_curve axEbv rv av =
     (let attenuation = fdiv (fmul av axEbv) rv
      in fwhere (flt attenuation (Fin 0)) (Fin 0) attenuation)"

definition flux_ratio :: "fl \<Rightarrow> fl \<Rightarrow> fl \<Rightarrow> fl \<Rightarrow> fl" where
  "flux_ratio axEbv rv av frac_unobscured =
     (let frac_att_obs = fpow (Fin 10) (fmul (Fin (- 0.4)) (attenuation_curve axEbv rv av));
          frac_att = fadd frac_unobscured (fmul (fsub (Fin 1) frac_unobscured) frac_att_obs)
      in frac_att)"

definition calzetti00_k_lambda :: "fl \<Rightarrow> fl \<Rightarrow> fl" where
  "calzetti00_k_lambda x rv =
     (let axEbv1 =
            fadd (fmul (Fin 2.659)
                    (fadd (fsub (fadd (Fin (- 2.156)) (fdiv (fmul (Fin 1.509) (Fin 1)) x))
                                (fdiv (fmul (Fin 0.198) (Fin 1)) (fpowi x 2)))
                          (fdiv (fmul (Fin 0.011) (Fin 1)) (fpowi x 3))))
                 rv;
          axEbv2 =
            fadd (fmul (Fin 2.659)
                    (fadd (Fin (- 1.857)) (fdiv (fmul (Fin 1.040) (Fin 1)) x)))
                 rv
      in fwhere (flt x (Fin 0.63)) axEbv1 axEbv2)"

definition leitherer02_k_lambda :: "fl \<Rightarrow> fl \<Rightarrow> fl" where
  "leitherer02_k_lambda x rv =
     fadd (Fin 5.472)
       (fadd (fsub (fdiv (fmul (Fin 0.671) (Fin 1)) x)
                   (fdiv (fmul (Fin 9.218) (Fin (1 / 1000))) (fpowi x 2)))
             (fdiv (fmul (Fin 2.620) (Fin (1 / 1000))) (fpowi x 3)))"

definition drude_bump :: "fl \<Rightarrow> fl \<Rightarrow> fl \<Rightarrow> fl \<Rightarrow> fl" where
  "drude_bump x x0 gamma ampl =
     (let bump = fdiv (fmul (fpowi x 2) (fpowi gamma 2))
                      (fadd (fpowi (fsub (fpowi x 2) (fpowi x0 2)) 2)
                            (fmul (fpowi x 2) (fpowi gamma 2)))
      in fmul ampl bump)"

definition power_law_vband_norm :: "fl \<Rightarrow> fl \<Rightarrow> fl" where
  "power_law_vband_norm x slope = fpow (fdiv x (Fin 0.55)) slope"

definition l02_below_c00_above :: "fl \<Rightarrow> fl \<Rightarrow> fl" where
  "l02_below_c00_above x xc =
     (let axEbv_c00 = calzetti00_k_lambda x RV_C00;
          axEbv_l02 = leitherer02_k_lambda x RV_C00;
          axEbv = fwhere (flt xc x) axEbv_c00 axEbv_l02
      in axEbv)"

definition noll09_k_lambda :: "fl \<Rightarrow> fl \<Rightarrow> fl \<Rightarrow> fl \<Rightarrow> fl \<Rightarrow> fl" where
  "noll09_k_lambda x x0 gamma ampl slope =
     (let axEbv = l02_below_c00_above x (Fin 0.15);
          axEbv = fadd axEbv (drude_bump x x0 gamma ampl);
          axEbv = fmul axEbv (power_law_vband_norm x slope);
          axEbv = fwhere (flt axEbv (Fin 0)) (Fin 0) axEbv
      in axEbv)"

definition sbl18_k_lambda :: "fl \<Rightarrow> fl \<Rightarrow> fl \<Rightarrow> fl \<Rightarrow> fl \<Rightarrow> fl" where
  "sbl18_k_lambda x x0 gamma ampl slope =
     (let axEbv = l02_below_c00_above x (Fin 0.15);
          axEbv = fmul axEbv (power_law_vband_norm x slope);
          axEbv = fadd axEbv (drude_bump x x0 gamma ampl);
          axEbv = fwhere (flt axEbv (Fin 0)) (Fin 0) axEbv
      in axEbv)"

section \<open>Arrays\<close>

text \<open>
  A one-dimensional array is a list. An elementwise operation on two arrays follows the
  broadcasting rule of NumPy for one dimension: equal lengths pair up, an array of
  length 1 is repeated, and any other pair of lengths raises.
\<close>

text \<open>The one error of the model: the array library raised on the shapes it was given.\<close>

datatype error = ShapeError

definition bindR :: "error + 'a \<Rightarrow> ('a \<Rightarrow> error + 'b) \<Rightarrow> error + 'b" where
  "bindR m f = (case m of Inl e \<Rightarrow> Inl e | Inr v \<Rightarrow> f v)"

definition bcast2 :: "(fl \<Rightarrow> fl \<Rightarrow> fl) \<Rightarrow> fl list \<Rightarrow> fl list \<Rightarrow> error + fl list" where
  "bcast2 f xs ys =
     (if length xs = length ys then Inr (map2 f xs ys)
      else if length xs = 1 then Inr (map (f (hd xs)) ys)
      else if length ys = 1 then Inr (map (\<lambda>x. f x (hd ys)) xs)
      else Inl ShapeError)"

definition fsum :: "fl list \<Rightarrow> fl" where
  "fsum xs = foldr fadd xs (Fin 0)"

text \<open>\<open>jnp.diff(x)\<close> is \<open>x[1:] - x[:-1]\<close>.\<close>

definition diff :: "fl list \<Rightarrow> fl list" where
  "diff x = map2 fsub (tl x) (butlast x)"

text \<open>
  \<open>jnp.trapz(y, x=x)\<close> is \<open>0.5 * (diff(x) * (y[1:] + y[:-1])).sum(-1)\<close>.
\<close>

definition trapz :: "fl list \<Rightarrow> fl list \<Rightarrow> error + fl" where
  "trapz y x =
     bindR (bcast2 fadd (tl y) (butlast y)) (\<lambda>s.
     bindR (bcast2 fmul (diff x) s) (\<lambda>p.
     Inr (fmul (Fin 0.5) (fsum p))))"

text \<open>
  \<open>jnp.interp(x, xp, fp, left, right)\<close>: the piecewise linear interpolant through the
  sample points \<open>(xp, fp)\<close>, with the values \<open>left\<close> and \<open>right\<close> outside their range.
  \<open>searchsorted(xp, x, side='right')\<close> is, for the increasing \<open>xp\<close> that the function
  expects, the number of sample points not above \<open>x\<close>. \<open>xp\<close> and \<open>fp\<close> of different
  lengths raise, and so does indexing into empty sample points.
\<close>

definition searchsorted_right :: "fl list \<Rightarrow> fl \<Rightarrow> nat" where
  "searchsorted_right xp x = length (filter (\<lambda>p. \<not> flt x p) xp)"

definition clip :: "nat \<Rightarrow> nat \<Rightarrow> nat \<Rightarrow> nat" where
  "clip v lo hi = min (max v lo) hi"

definition interp_point :: "fl list \<Rightarrow> fl list \<Rightarrow> fl \<Rightarrow> fl \<Rightarrow> fl \<Rightarrow> fl" where
  "interp_point xp fp left right x =
     (let i = clip (searchsorted_right xp x) 1 (length xp - 1);
          j = (if i = 0 then length xp - 1 else i - 1);
          df = fsub (fp ! i) (fp ! j);
          dx = fsub (xp ! i) (xp ! j);
          delta = fsub x (xp ! j);
          f = fwhere (feq dx (Fin 0)) (fp ! i) (fadd (fp ! j) (fmul (fdiv delta dx) df));
          f = fwhere (flt x (xp ! 0)) left f;
          f = fwhere (flt (xp ! (length xp - 1)) x) right f
      in f)"

definition interp :: "fl list \<Rightarrow> fl list \<Rightarrow> fl list \<Rightarrow> fl \<Rightarrow> fl \<Rightarrow> error + fl list" where
  "interp x xp fp left right =
     (if length xp \<noteq> length fp \<or> xp = [] then Inl ShapeError
      else Inr (map (interp_point xp fp left right) x))"

text \<open>
  \<open>jax.vmap(f, in_axes)\<close> maps \<open>f\<close> over the leading axis of the arguments whose entry
  in \<open>in_axes\<close> is 0 and stacks the results along a new leading axis; an error in one
  call is an error of the whole call.
\<close>

fun mapM :: "('a \<Rightarrow> error + 'b) \<Rightarrow> 'a list \<Rightarrow> error + 'b list" where
  "mapM f [] = Inr []"
| "mapM f (x # xs) = bindR (f x) (\<lambda>y. bindR (mapM f xs) (\<lambda>ys. Inr (y # ys)))"

section \<open>Photometry kernels (dsps/photometry\_kernels.py)\<close>

definition AB0 :: fl where
  "AB0 = Fin (1.13492 / 10 ^ 13)"

definition flux_ab0_at_10pc :: "fl list \<Rightarrow> fl list \<Rightarrow> error + fl" where
  "flux_ab0_at_10pc wave_filter trans_filter =
     bindR (bcast2 fdiv (map (\<lambda>t. fmul t AB0) trans_filter) wave_filter) (\<lambda>integrand.
     trapz integrand wave_filter)"

definition rest_flux_ssp :: "fl list \<Rightarrow> fl list \<Rightarrow> fl list \<Rightarrow> fl list \<Rightarrow> error + fl" where
  "rest_flux_ssp wave_spec_rest lum_spec wave_filter trans_filter =
     bindR (interp wave_filter wave_spec_rest lum_spec (Fin 0) (Fin 0)) (\<lambda>lum_phot.
     bindR (bcast2 fmul trans_filter lum_phot) (\<lambda>tl.
     bindR (bcast2 fdiv tl wave_filter) (\<lambda>integrand.
     trapz integrand wave_filter)))"

definition obs_flux_ssp ::
  "fl list \<Rightarrow> fl list \<Rightarrow> fl list \<Rightarrow> fl list \<Rightarrow> fl \<Rightarrow> error + fl" where
  "obs_flux_ssp wave_spec_rest lum_spec wave_filter trans_filter z =
     bindR (interp wave_filter (map (\<lambda>w. fmul w (fadd (Fin 1) z)) wave_spec_rest)
              lum_spec (Fin 0) (Fin 0)) (\<lambda>lum_zshift_phot.
     bindR (bcast2 fmul trans_filter lum_zshift_phot) (\<lambda>tl.
     bindR (bcast2 fdiv tl wave_filter) (\<lambda>integrand.
     trapz integrand wave_filter)))"

definition calc_rest_mag :: "fl list \<Rightarrow> fl list \<Rightarrow> fl list \<Rightarrow> fl list \<Rightarrow> error + fl" where
  "calc_rest_mag wave_spec_rest lum_spec wave_filter trans_filter =
     bindR (rest_flux_ssp wave_spec_rest lum_spec wave_filter trans_filter) (\<lambda>flux_source.
     bindR (flux_ab0_at_10pc wave_filter trans_filter) (\<lambda>flux_ab0.
     Inr (fmul (Fin (- 2.5)) (flog10 (fdiv flux_source flux_ab0)))))"

definition calc_obs_mag_no_dimming ::
  "fl list \<Rightarrow> fl list \<Rightarrow> fl list \<Rightarrow> fl list \<Rightarrow> fl \<Rightarrow> error + fl" where
  "calc_obs_mag_no_dimming wave_spec_rest lum_spec wave_filter trans_filter z =
     bindR (obs_flux_ssp wave_spec_rest lum_spec wave_filter trans_filter z) (\<lambda>flux_source.
     bindR (flux_ab0_at_10pc wave_filter trans_filter) (\<lambda>flux_ab0.
     Inr (fmul (Fin (- 2.5)) (flog10 (fdiv flux_source flux_ab0)))))"

text \<open>
  \<open>_distance_modulus_to_z\<close> belongs to the module \<open>flat_wcdm\<close>, the cosmology
  collaborator. It is a parameter of the two functions that call it.
\<close>

type_synonym distance_modulus = "fl \<Rightarrow> fl \<Rightarrow> fl \<Rightarrow> fl \<Rightarrow> fl \<Rightarrow> fl \<Rightarrow> fl"

definition cosmological_dimming ::
  "distance_modulus \<Rightarrow> fl \<Rightarrow> fl \<Rightarrow> fl \<Rightarrow> fl \<Rightarrow> fl \<Rightarrow> fl \<Rightarrow> fl" where
  "cosmological_dimming distance_modulus_to_z z Om0 Ode0 w0 wa h =
     (let dmod = distance_modulus_to_z z Om0 Ode0 w0 wa h
      in fsub dmod (fmul (Fin 2.5) (flog10 (fadd (Fin 1) z))))"

definition calc_obs_mag ::
  "distance_modulus \<Rightarrow> fl list \<Rightarrow> fl list \<Rightarrow> fl list \<Rightarrow> fl list \<Rightarrow>
     fl \<Rightarrow> fl \<Rightarrow> fl \<Rightarrow> fl \<Rightarrow> fl \<Rightarrow> fl \<Rightarrow> error + fl" where
  "calc_obs_mag distance_modulus_to_z wave_spec_rest lum_spec wave_filter trans_filter
       z Om0 Ode0 w0 wa h =
     bindR (obs_flux_ssp wave_spec_rest lum_spec wave_filter trans_filter z) (\<lambda>flux_source.
     bindR (flux_ab0_at_10pc wave_filter trans_filter) (\<lambda>flux_ab0.
     (let mag_no_dimming = fmul (Fin (- 2.5)) (flog10 (fdiv flux_source flux_ab0));
          dimming = cosmological_dimming distance_modulus_to_z z Om0 Ode0 w0 wa h
      in Inr (fadd mag_no_dimming dimming))))"

text \<open>
  The batched kernels: \<open>in_axes = _b\<close> maps over the redshift, \<open>in_axes = _a\<close> over
  the leading axis of the luminosities.
\<close>

definition vmap_b ::
  "(fl list \<Rightarrow> 'l \<Rightarrow> fl list \<Rightarrow> fl list \<Rightarrow> 'z \<Rightarrow> error + 'r) \<Rightarrow>
     fl list \<Rightarrow> 'l \<Rightarrow> fl list \<Rightarrow> fl list \<Rightarrow> 'z list \<Rightarrow> error + 'r list" where
  "vmap_b f wave_spec_rest lum_spec wave_filter trans_filter z =
     mapM (\<lambda>z1. f wave_spec_rest lum_spec wave_filter trans_filter z1) z"

definition vmap_a ::
  "(fl list \<Rightarrow> 'l \<Rightarrow> fl list \<Rightarrow> fl list \<Rightarrow> 'z \<Rightarrow> error + 'r) \<Rightarrow>
     fl list \<Rightarrow> 'l list \<Rightarrow> fl list \<Rightarrow> fl list \<Rightarrow> 'z \<Rightarrow> error + 'r list" where
  "vmap_a f wave_spec_rest lum_spec wave_filter trans_filter z =
     mapM (\<lambda>lum1. f wave_spec_rest lum1 wave_filter trans_filter z) lum_spec"

definition calc_obs_mag_no_dimming_vmap ::
  "fl list \<Rightarrow> fl list list list \<Rightarrow> fl list \<Rightarrow> fl list \<Rightarrow> fl list \<Rightarrow>
     error + fl list list list" where
  "calc_obs_mag_no_dimming_vmap = vmap_a (vmap_a (vmap_b calc_obs_mag_no_dimming))"

section \<open>The specification's curves and invariants\<close>

text \<open>
  The Leitherer02 curve as the specification writes it:
  \<open>axEbv = 5.472 + 0.671/x - 9.218e-3/x\<^sup>2 + 2.620e-3/x\<^sup>3\<close>.
\<close>

definition leitherer02_spec :: "fl \<Rightarrow> fl" where
  "leitherer02_spec x =
     fadd (fsub (fadd (Fin 5.472) (fdiv (Fin 0.671) x))
                (fdiv (Fin (9.218 / 1000)) (fpowi x 2)))
          (fdiv (Fin (2.620 / 1000)) (fpowi x 3))"

text \<open>
  The Calzetti00 curve as the specification writes it, piecewise at 0.63 microns, with
  \<open>Rv = 4.05\<close>.
\<close>

definition calzetti00_spec :: "fl \<Rightarrow> fl" where
  "calzetti00_spec x =
     (if flt x (Fin 0.63)
      then fadd (fmul (Fin 2.659)
                  (fadd (fsub (fadd (Fin (- 2.156)) (fdiv (Fin 1.509) x))
                              (fdiv (Fin 0.198) (fpowi x 2)))
                        (fdiv (Fin 0.011) (fpowi x 3))))
                (Fin 4.05)
      else fadd (fmul (Fin 2.659) (fadd (Fin (- 1.857)) (fdiv (Fin 1.040) x))) (Fin 4.05))"

text \<open>
  A valid filter curve: as many transmissions as wavelengths, at least two of them, the
  wavelengths positive and strictly increasing, no transmission negative. All values are
  numbers.
\<close>

definition valid_filter :: "real list \<Rightarrow> real list \<Rightarrow> bool" where
  "valid_filter wave transm =
     (length wave = length transm \<and> 2 \<le> length wave \<and> sorted_wrt (<) wave \<and>
      (\<forall>w \<in> set wave. 0 < w) \<and> (\<forall>t \<in> set transm. 0 \<le> t))"

text \<open>
  The trapezoidal rule and the integrand of the AB reference source on real numbers:
  what \<open>trapz\<close> and \<open>flux_ab0_at_10pc\<close> compute on arrays of numbers.
\<close>

definition rtrapz :: "real list \<Rightarrow> real list \<Rightarrow> real" where
  "rtrapz y x =
     1 / 2 * sum_list (map2 (*) (map2 (-) (tl x) (butlast x)) (map2 (+) (tl y) (butlast y)))"

definition ab0_integrand :: "real list \<Rightarrow> real list \<Rightarrow> real list" where
  "ab0_integrand wave transm = map2 (/) (map (\<lambda>t. t * (1.13492 / 10 ^ 13)) transm) wave"

section \<open>Arithmetic of the floating-point values\<close>

lemma fmul_one [simp]: "fmul x (Fin 1) = x"
  by (cases x) simp_all

lemma fadd_assoc: "fadd (fadd x y) z = fadd x (fadd y z)"
  by (cases x; cases y; cases z) simp_all

section \<open>The dust curves\<close>

lemma leitherer02_k_lambda_spec: "leitherer02_k_lambda x rv = leitherer02_spec x"
  unfolding leitherer02_k_lambda_def leitherer02_spec_def fsub_def
  by (simp add: fadd_assoc)

lemma calzetti00_k_lambda_spec: "calzetti00_k_lambda x RV_C00 = calzetti00_spec x"
  unfolding calzetti00_k_lambda_def calzetti00_spec_def fwhere_def Let_def RV_C00_def
  by simp

text \<open>
  C1 (as amended). The blended curve that \<open>noll09_k_lambda\<close> and \<open>sbl18_k_lambda\<close>
  start from, \<open>_l02_below_c00_above(x, xc=0.15)\<close>, is the Calzetti00 curve with
  \<open>Rv = 4.05\<close> for every wavelength above 0.15 microns, and the Leitherer02 curve for
  every other wavelength: below 0.15 and at 0.15 exactly. The selection is
  \<open>jnp.where(x > xc, axEbv_c00, axEbv_l02)\<close>, so the boundary belongs to Leitherer02.
  Two results are equal when they are the same value, NaN included.
\<close>

theorem l02_below_c00_above_branches:
  "(flt (Fin 0.15) x \<longrightarrow> l02_below_c00_above x (Fin 0.15) = calzetti00_spec x) \<and>
   (\<not> flt (Fin 0.15) x \<longrightarrow> l02_below_c00_above x (Fin 0.15) = leitherer02_spec x)"
  unfolding l02_below_c00_above_def Let_def fwhere_def
  by (simp add: leitherer02_k_lambda_spec calzetti00_k_lambda_spec)

theorem l02_below_c00_above_branches_witness:
  "flt (Fin 0.15) (Fin 1) \<and> l02_below_c00_above (Fin 1) (Fin 0.15) = calzetti00_spec (Fin 1) \<and>
   \<not> flt (Fin 0.15) (Fin 0.15) \<and>
   l02_below_c00_above (Fin 0.15) (Fin 0.15) = leitherer02_spec (Fin 0.15)"
  using l02_below_c00_above_branches [of "Fin 1"]
    l02_below_c00_above_branches [of "Fin 0.15"]
  by simp

text \<open>
  At 0.15 microns the blended curve is the Leitherer02 value 174014/16875
  (about 10.312), not the Calzetti00 value 17438467/1687500 (about 10.334).
\<close>

theorem l02_below_c00_above_at_boundary:
  "l02_below_c00_above (Fin 0.15) (Fin 0.15) = Fin (174014 / 16875) \<and>
   calzetti00_spec (Fin 0.15) = Fin (17438467 / 1687500) \<and>
   l02_below_c00_above (Fin 0.15) (Fin 0.15) \<noteq> calzetti00_spec (Fin 0.15)"
  unfolding l02_below_c00_above_def Let_def fwhere_def leitherer02_k_lambda_def
    calzetti00_spec_def fsub_def
  by (simp add: numeral_2_eq_2 numeral_3_eq_3)

text \<open>
  C5. With \<open>slope = 0\<close> the Noll09 curve and the Salim18 curve are equal, for every
  wavelength and all bump parameters: the power law \<open>(x / 0.55) ** 0\<close> is 1 for every
  \<open>x\<close>, so adding the bump before or after the multiplication gives the same result.
\<close>

theorem noll09_eq_sbl18_slope_zero:
  "power_law_vband_norm x (Fin 0) = Fin 1 \<and>
   noll09_k_lambda x x0 gamma ampl (Fin 0) = sbl18_k_lambda x x0 gamma ampl (Fin 0)"
  unfolding noll09_k_lambda_def sbl18_k_lambda_def power_law_vband_norm_def Let_def
  by simp

text \<open>
  C7. \<open>_attenuation_curve(axEbv, rv, av)\<close> is never below zero, whatever the three
  inputs are: no result compares as less than 0 (so none is a negative number or minus
  infinity), and when \<open>av * axEbv / rv\<close> is a number \<open>q\<close> the result is \<open>max 0 q\<close>.
\<close>

theorem attenuation_curve_nonneg:
  "\<not> flt (attenuation_curve axEbv rv av) (Fin 0) \<and>
   (\<forall>q. fdiv (fmul av axEbv) rv = Fin q \<longrightarrow> attenuation_curve axEbv rv av = Fin (max 0 q))"
  unfolding attenuation_curve_def Let_def fwhere_def
  by auto

theorem attenuation_curve_nonneg_witness:
  "fdiv (fmul (Fin 2) (Fin (- 3))) (Fin 4) = Fin (- 3 / 2) \<and>
   \<not> flt (attenuation_curve (Fin (- 3)) (Fin 4) (Fin 2)) (Fin 0) \<and>
   attenuation_curve (Fin (- 3)) (Fin 4) (Fin 2) = Fin 0"
  using attenuation_curve_nonneg [of "Fin (- 3)" "Fin 4" "Fin 2"]
  by simp

text \<open>
  C8 (as amended). With zero reddening and the default \<open>frac_unobscured = 0\<close>,
  \<open>_flux_ratio(0, rv, av)\<close> is exactly 1 for every number \<open>av\<close> and every \<open>rv\<close> other
  than zero (and other than NaN).
\<close>

theorem flux_ratio_zero_reddening:
  "rv \<noteq> Fin 0 \<Longrightarrow> rv \<noteq> NaN \<Longrightarrow> flux_ratio (Fin 0) rv (Fin av) (Fin 0) = Fin 1"
  unfolding flux_ratio_def attenuation_curve_def Let_def fwhere_def fsub_def
  by (cases rv) simp_all

theorem flux_ratio_zero_reddening_witness:
  "RV_C00 \<noteq> Fin 0 \<and> RV_C00 \<noteq> NaN \<and> flux_ratio (Fin 0) RV_C00 (Fin 1) (Fin 0) = Fin 1"
  using flux_ratio_zero_reddening [of RV_C00 1]
  by (simp add: RV_C00_def)

text \<open>
  At \<open>rv = 0\<close> the attenuation is \<open>av * 0 / 0\<close>, which is NaN, and so is the flux ratio.
\<close>

theorem flux_ratio_zero_rv:
  "flux_ratio (Fin 0) (Fin 0) (Fin 1) (Fin 0) = NaN \<and>
   flux_ratio (Fin 0) (Fin 0) (Fin 1) (Fin 0) \<noteq> Fin 1"
  unfolding flux_ratio_def attenuation_curve_def Let_def fwhere_def fsub_def
  by simp

section \<open>Errors and batches\<close>

lemma bindR_Inr [simp]: "bindR (Inr v) f = f v"
  by (simp add: bindR_def)

lemma bindR_Inl [simp]: "bindR (Inl e) f = Inl e"
  by (simp add: bindR_def)

lemma bindR_eq_Inr: "bindR m f = Inr r \<longleftrightarrow> (\<exists>v. m = Inr v \<and> f v = Inr r)"
  by (cases m) simp_all

lemmas array_defs = bcast2_def trapz_def diff_def fsum_def interp_def interp_point_def
  searchsorted_right_def clip_def fwhere_def fsub_def feq_def

text \<open>
  A batch succeeds exactly when every call of it does, and then holds the results of
  the calls in the order of the inputs.
\<close>

lemma mapM_eq_Inr:
  "mapM f xs = Inr ys \<longleftrightarrow>
     length ys = length xs \<and> (\<forall>i<length xs. f (xs ! i) = Inr (ys ! i))"
proof (induction xs arbitrary: ys)
  case Nil
  show ?case by auto
next
  case (Cons x xs)
  show ?case
  proof (cases ys)
    case Nil
    then show ?thesis by (auto simp: bindR_eq_Inr)
  next
    case (Cons y ys')
    have "mapM f (x # xs) = Inr (y # ys') \<longleftrightarrow> f x = Inr y \<and> mapM f xs = Inr ys'"
      by (auto simp: bindR_eq_Inr)
    also have "\<dots> \<longleftrightarrow> f x = Inr y \<and> length ys' = length xs \<and>
        (\<forall>i<length xs. f (xs ! i) = Inr (ys' ! i))"
      by (simp add: Cons.IH)
    also have "\<dots> \<longleftrightarrow> length (y # ys') = length (x # xs) \<and>
        (\<forall>i<length (x # xs). f ((x # xs) ! i) = Inr ((y # ys') ! i))"
      by (auto simp: nth_Cons split: nat.splits)
    finally show ?thesis using Cons by simp
  qed
qed

section \<open>The photometry kernels\<close>

text \<open>
  C2. For luminosities of shape \<open>(n_met, n_age, n_wave)\<close> and \<open>n_gal\<close> redshifts,
  \<open>_calc_obs_mag_no_dimming_vmap\<close> returns an array \<open>out\<close> exactly when \<open>out\<close> has
  shape \<open>(n_met, n_age, n_gal)\<close> and every element \<open>out[i][j][k]\<close> is the result of the
  scalar \<open>_calc_obs_mag_no_dimming\<close> on the spectrum \<open>lum_spec[i][j]\<close> and the
  redshift \<open>z[k]\<close>: the batched call is the triple loop over metallicity, age and galaxy,
  in that order.
\<close>

theorem calc_obs_mag_no_dimming_vmap_elementwise:
  assumes "length lum_spec = n_met" and "\<forall>row \<in> set lum_spec. length row = n_age"
    and "length z = n_gal"
  shows "calc_obs_mag_no_dimming_vmap wave_spec_rest lum_spec wave_filter trans_filter z
           = Inr out
    \<longleftrightarrow> length out = n_met \<and>
      (\<forall>i<n_met. length (out ! i) = n_age \<and>
        (\<forall>j<n_age. length (out ! i ! j) = n_gal \<and>
          (\<forall>k<n_gal. calc_obs_mag_no_dimming wave_spec_rest (lum_spec ! i ! j)
                         wave_filter trans_filter (z ! k) = Inr (out ! i ! j ! k))))"
  using assms
  unfolding calc_obs_mag_no_dimming_vmap_def vmap_a_def vmap_b_def mapM_eq_Inr
  by auto

lemma calc_obs_mag_no_dimming_example_z0:
  "calc_obs_mag_no_dimming [Fin 1, Fin 2] [AB0, AB0] [Fin 1, Fin 2] [Fin 1, Fin 1] (Fin 0)
     = Inr (Fin 0)"
  unfolding calc_obs_mag_no_dimming_def obs_flux_ssp_def flux_ab0_at_10pc_def AB0_def
  by (simp add: array_defs Let_def)

lemma calc_obs_mag_no_dimming_example_z1:
  "calc_obs_mag_no_dimming [Fin 1, Fin 2] [AB0, AB0] [Fin 1, Fin 2] [Fin 1, Fin 1] (Fin 1)
     = Inr (Fin (- 2.5 * log 10 (1 / 3)))"
  unfolding calc_obs_mag_no_dimming_def obs_flux_ssp_def flux_ab0_at_10pc_def AB0_def
  by (simp add: array_defs Let_def)

theorem calc_obs_mag_no_dimming_vmap_elementwise_witness:
  "length [[[AB0, AB0]], [[AB0, AB0]]] = 2 \<and>
   list_all (\<lambda>row. length row = 1) [[[AB0, AB0]], [[AB0, AB0]]] \<and>
   length [Fin 0, Fin 1] = 2 \<and>
   calc_obs_mag_no_dimming_vmap [Fin 1, Fin 2] [[[AB0, AB0]], [[AB0, AB0]]]
       [Fin 1, Fin 2] [Fin 1, Fin 1] [Fin 0, Fin 1]
     = Inr [[[Fin 0, Fin (- 2.5 * log 10 (1 / 3))]], [[Fin 0, Fin (- 2.5 * log 10 (1 / 3))]]]"
  using calc_obs_mag_no_dimming_vmap_elementwise
    [of "[[[AB0, AB0]], [[AB0, AB0]]]" 2 1 "[Fin 0, Fin 1]" 2
        "[Fin 1, Fin 2]" "[Fin 1, Fin 2]" "[Fin 1, Fin 1]"
        "[[[Fin 0, Fin (- 2.5 * log 10 (1 / 3))]], [[Fin 0, Fin (- 2.5 * log 10 (1 / 3))]]]"]
  by (simp add: calc_obs_mag_no_dimming_example_z0 calc_obs_mag_no_dimming_example_z1
      less_Suc_eq numeral_2_eq_2)

text \<open>
  C3. The observed magnitude with dimming is the observed magnitude without dimming
  plus \<open>distance_modulus(z, Om0, Ode0, w0, wa, h) - 2.5 * log10(1 + z)\<close>, for every
  distance-modulus function of the cosmology collaborator; where the magnitude without
  dimming raises, so does the magnitude with dimming.
\<close>

theorem calc_obs_mag_adds_dimming:
  "calc_obs_mag distance_modulus_to_z wave_spec_rest lum_spec wave_filter trans_filter
       z Om0 Ode0 w0 wa h =
   bindR (calc_obs_mag_no_dimming wave_spec_rest lum_spec wave_filter trans_filter z)
     (\<lambda>mag_no_dimming. Inr (fadd mag_no_dimming
        (fsub (distance_modulus_to_z z Om0 Ode0 w0 wa h)
              (fmul (Fin 2.5) (flog10 (fadd (Fin 1) z))))))"
  unfolding calc_obs_mag_def calc_obs_mag_no_dimming_def cosmological_dimming_def Let_def
  by (simp add: bindR_def split: sum.splits)

text \<open>
  C4. The observed flux is the rest-frame flux of the spectrum whose wavelengths are
  multiplied by \<open>1 + z\<close> and whose luminosities are unchanged. At \<open>z = 0\<close> the observed
  flux is the rest-frame flux, and the observed magnitude without dimming is the
  rest-frame magnitude.
\<close>

theorem obs_flux_is_redshifted_rest_flux:
  "obs_flux_ssp wave_spec_rest lum_spec wave_filter trans_filter z =
     rest_flux_ssp (map (\<lambda>w. fmul w (fadd (Fin 1) z)) wave_spec_rest) lum_spec
       wave_filter trans_filter
   \<and> obs_flux_ssp wave_spec_rest lum_spec wave_filter trans_filter (Fin 0) =
     rest_flux_ssp wave_spec_rest lum_spec wave_filter trans_filter
   \<and> calc_obs_mag_no_dimming wave_spec_rest lum_spec wave_filter trans_filter (Fin 0) =
     calc_rest_mag wave_spec_rest lum_spec wave_filter trans_filter"
  unfolding obs_flux_ssp_def rest_flux_ssp_def calc_obs_mag_no_dimming_def calc_rest_mag_def
  by simp

section \<open>The flux of the AB reference source\<close>

text \<open>On arrays of numbers the kernels compute the real trapezoidal rule.\<close>

lemma map2_Fin:
  assumes "\<And>a b. (a, b) \<in> set (zip as bs) \<Longrightarrow> f (Fin a) (Fin b) = Fin (g a b)"
  shows "map2 f (map Fin as) (map Fin bs) = map Fin (map2 g as bs)"
  using assms by (auto simp: zip_map_map)

lemma fsum_Fin: "fsum (map Fin rs) = Fin (sum_list rs)"
  by (induction rs) (simp_all add: fsum_def)

lemma diff_Fin: "diff (map Fin x) = map Fin (map2 (-) (tl x) (butlast x))"
  unfolding diff_def map_tl [symmetric] map_butlast [symmetric]
  by (rule map2_Fin) (simp add: fsub_def)

lemma trapz_Fin:
  assumes "length y = length x"
  shows "trapz (map Fin y) (map Fin x) = Inr (Fin (rtrapz y x))"
proof -
  have e: "map2 fadd (tl (map Fin y)) (butlast (map Fin y))
             = map Fin (map2 (+) (tl y) (butlast y))"
    unfolding map_tl [symmetric] map_butlast [symmetric] by (rule map2_Fin) simp
  have s: "bcast2 fadd (tl (map Fin y)) (butlast (map Fin y))
             = Inr (map Fin (map2 (+) (tl y) (butlast y)))"
    unfolding bcast2_def e by simp
  have e': "map2 fmul (map Fin (map2 (-) (tl x) (butlast x)))
                (map Fin (map2 (+) (tl y) (butlast y)))
             = map Fin (map2 (*) (map2 (-) (tl x) (butlast x)) (map2 (+) (tl y) (butlast y)))"
    by (rule map2_Fin) simp
  have p: "bcast2 fmul (diff (map Fin x)) (map Fin (map2 (+) (tl y) (butlast y)))
             = Inr (map Fin (map2 (*) (map2 (-) (tl x) (butlast x))
                                      (map2 (+) (tl y) (butlast y))))"
    unfolding bcast2_def diff_Fin e' using assms by simp
  show ?thesis
    unfolding trapz_def s bindR_Inr p fsum_Fin rtrapz_def by simp
qed

lemma flux_ab0_Fin:
  assumes "length wave = length transm" and "\<forall>w \<in> set wave. w \<noteq> 0"
  shows "flux_ab0_at_10pc (map Fin wave) (map Fin transm)
           = Inr (Fin (rtrapz (ab0_integrand wave transm) wave))"
proof -
  have m: "map (\<lambda>t. fmul t AB0) (map Fin transm)
             = map Fin (map (\<lambda>t. t * (1.13492 / 10 ^ 13)) transm)"
    by (simp add: AB0_def)
  have e: "map2 fdiv (map Fin (map (\<lambda>t. t * (1.13492 / 10 ^ 13)) transm)) (map Fin wave)
             = map Fin (ab0_integrand wave transm)"
    unfolding ab0_integrand_def
    by (rule map2_Fin) (use assms(2) in \<open>auto dest: set_zip_rightD\<close>)
  have d: "bcast2 fdiv (map Fin (map (\<lambda>t. t * (1.13492 / 10 ^ 13)) transm)) (map Fin wave)
             = Inr (map Fin (ab0_integrand wave transm))"
    unfolding bcast2_def e using assms(1) by simp
  have l: "length (ab0_integrand wave transm) = length wave"
    using assms by (simp add: ab0_integrand_def)
  show ?thesis
    unfolding flux_ab0_at_10pc_def m d bindR_Inr by (rule trapz_Fin [OF l])
qed

lemma rtrapz_term:
  assumes "length y = length x" and "i < length x - 1"
  shows "map2 (*) (map2 (-) (tl x) (butlast x)) (map2 (+) (tl y) (butlast y)) ! i
           = (x ! Suc i - x ! i) * (y ! Suc i + y ! i)"
  using assms by (simp add: nth_tl nth_butlast)

text \<open>
  Every trapezoid over an increasing grid and a non-negative integrand is non-negative.
\<close>

lemma rtrapz_trapezoid:
  fixes x y :: "real list"
  assumes len: "length y = length x" and srt: "sorted_wrt (<) x"
    and nn: "\<forall>v \<in> set y. 0 \<le> v" and i: "i < length x - 1"
  shows "0 \<le> map2 (*) (map2 (-) (tl x) (butlast x)) (map2 (+) (tl y) (butlast y)) ! i"
proof -
  have "x ! i < x ! Suc i"
    using srt i by (simp add: sorted_wrt_nth_less)
  then have d: "0 < x ! Suc i - x ! i" by simp
  have "0 \<le> y ! Suc i" "0 \<le> y ! i"
    using nn i len by simp_all
  then have "0 \<le> y ! Suc i + y ! i" by simp
  with d have "0 \<le> (x ! Suc i - x ! i) * (y ! Suc i + y ! i)"
    by (simp add: mult_nonneg_nonneg)
  then show ?thesis
    unfolding rtrapz_term [OF len i] .
qed

lemma rtrapz_trapezoids_nonneg:
  fixes x y :: "real list"
  assumes len: "length y = length x" and srt: "sorted_wrt (<) x"
    and nn: "\<forall>v \<in> set y. 0 \<le> v"
  shows "\<forall>z \<in> set (map2 (*) (map2 (-) (tl x) (butlast x)) (map2 (+) (tl y) (butlast y))).
           0 \<le> z"
proof
  let ?zs = "map2 (*) (map2 (-) (tl x) (butlast x)) (map2 (+) (tl y) (butlast y))"
  have lz: "length ?zs = length x - 1" using len by simp
  fix z assume "z \<in> set ?zs"
  then obtain i where i: "i < length ?zs" and z: "z = ?zs ! i"
    by (metis in_set_conv_nth)
  from i lz have "i < length x - 1" by metis
  from rtrapz_trapezoid [OF len srt nn this] show "0 \<le> z" unfolding z .
qed

lemma rtrapz_nonneg:
  assumes len: "length y = length x" and srt: "sorted_wrt (<) x"
    and nn: "\<forall>v \<in> set y. 0 \<le> v"
  shows "0 \<le> rtrapz y x"
proof -
  let ?zs = "map2 (*) (map2 (-) (tl x) (butlast x)) (map2 (+) (tl y) (butlast y))"
  have "0 \<le> sum_list ?zs"
    using rtrapz_trapezoids_nonneg [OF len srt nn] by (rule_tac sum_list_nonneg) blast
  then show ?thesis by (simp add: rtrapz_def)
qed

lemma ab0_integrand_props:
  assumes "valid_filter wave transm"
  shows "length (ab0_integrand wave transm) = length wave"
    and "\<forall>v \<in> set (ab0_integrand wave transm). 0 \<le> v"
proof -
  have len: "length wave = length transm" and wpos: "\<forall>w \<in> set wave. 0 < w"
    and tnn: "\<forall>t \<in> set transm. 0 \<le> t"
    using assms by (simp_all add: valid_filter_def)
  show l: "length (ab0_integrand wave transm) = length wave"
    using len by (simp add: ab0_integrand_def)
  have nth: "ab0_integrand wave transm ! i = transm ! i * (1.13492 / 10 ^ 13) / wave ! i"
    if "i < length wave" for i
    using that len by (simp add: ab0_integrand_def)
  show "\<forall>v \<in> set (ab0_integrand wave transm). 0 \<le> v"
  proof
    fix v assume "v \<in> set (ab0_integrand wave transm)"
    then obtain i where i: "i < length wave" and v: "v = ab0_integrand wave transm ! i"
      using l by (auto simp: in_set_conv_nth)
    have "0 \<le> transm ! i" "0 < wave ! i" using i len tnn wpos by simp_all
    then show "0 \<le> v" unfolding v nth [OF i] by simp
  qed
qed

lemma flux_ab0_nonneg:
  assumes "valid_filter wave transm"
  shows "\<exists>v. flux_ab0_at_10pc (map Fin wave) (map Fin transm) = Inr (Fin v) \<and> 0 \<le> v"
proof -
  have len: "length wave = length transm"
    and srt: "sorted_wrt (<) wave" and wpos: "\<forall>w \<in> set wave. 0 < w"
    using assms by (simp_all add: valid_filter_def)
  have nz: "\<forall>w \<in> set wave. w \<noteq> 0" using wpos by auto
  note p = ab0_integrand_props [OF assms]
  have "0 \<le> rtrapz (ab0_integrand wave transm) wave"
    by (rule rtrapz_nonneg [OF p(1) srt p(2)])
  then show ?thesis
    using flux_ab0_Fin [OF len nz] by blast
qed




section \<open>Degenerate fluxes\<close>

lemma mag_of_nonpos_flux:
  assumes "flt flux_source (Fin 0) \<or> flux_source = Fin 0" and "0 \<le> a"
  shows "fmul (Fin (- 2.5)) (flog10 (fdiv flux_source (Fin a))) = PInf
       \<or> fmul (Fin (- 2.5)) (flog10 (fdiv flux_source (Fin a))) = NaN"
proof (cases flux_source)
  case (Fin f)
  then have f: "f \<le> 0" using assms(1) by auto
  show ?thesis
  proof (cases "a = 0")
    case True
    then show ?thesis using f Fin by simp
  next
    case False
    then have "0 < a" using assms(2) by simp
    then have "f / a \<le> 0" using f by (simp add: divide_nonpos_pos)
    then show ?thesis using False Fin by simp
  qed
next
  case PInf
  then show ?thesis using assms(1) by simp
next
  case NInf
  then show ?thesis using assms(2) by simp
next
  case NaN
  then show ?thesis by simp
qed

text \<open>
  C9. For every valid filter curve and every spectrum whose flux through the filter,
  \<open>_rest_flux_ssp\<close>, is zero or negative, \<open>_calc_rest_mag\<close> raises no error and returns
  plus infinity or NaN. A spectrum that does not overlap the filter has flux zero and
  magnitude plus infinity.
\<close>

theorem calc_rest_mag_degenerate:
  assumes "valid_filter wave transm"
    and "rest_flux_ssp wave_spec_rest lum_spec (map Fin wave) (map Fin transm)
           = Inr flux_source"
    and "flt flux_source (Fin 0) \<or> flux_source = Fin 0"
  shows "calc_rest_mag wave_spec_rest lum_spec (map Fin wave) (map Fin transm) = Inr PInf
       \<or> calc_rest_mag wave_spec_rest lum_spec (map Fin wave) (map Fin transm) = Inr NaN"
proof -
  from flux_ab0_nonneg [OF assms(1)] obtain a
    where a: "flux_ab0_at_10pc (map Fin wave) (map Fin transm) = Inr (Fin a)"
      and a0: "0 \<le> a"
    by blast
  show ?thesis
    unfolding calc_rest_mag_def assms(2) a bindR_Inr sum.inject
    by (rule mag_of_nonpos_flux [OF assms(3) a0])
qed

theorem calc_rest_mag_degenerate_witness:
  "valid_filter [3, 4] [1, 1]
   \<and> rest_flux_ssp [Fin 1, Fin 2] [Fin 1, Fin 1] (map Fin [3, 4]) (map Fin [1, 1])
       = Inr (Fin 0)
   \<and> (flt (Fin 0) (Fin 0) \<or> Fin 0 = Fin 0)
   \<and> calc_rest_mag [Fin 1, Fin 2] [Fin 1, Fin 1] (map Fin [3, 4]) (map Fin [1, 1])
       = Inr PInf"
proof -
  have v: "valid_filter [3, 4] [1, 1]" by (simp add: valid_filter_def)
  have f: "rest_flux_ssp [Fin 1, Fin 2] [Fin 1, Fin 1] (map Fin [3, 4]) (map Fin [1, 1])
             = Inr (Fin 0)"
    by (simp add: rest_flux_ssp_def array_defs Let_def)
  have z: "flt (Fin 0) (Fin 0) \<or> Fin 0 = Fin 0" by simp
  have n: "calc_rest_mag [Fin 1, Fin 2] [Fin 1, Fin 1] (map Fin [3, 4]) (map Fin [1, 1])
             \<noteq> Inr NaN"
    by (simp add: calc_rest_mag_def rest_flux_ssp_def flux_ab0_at_10pc_def AB0_def
        array_defs Let_def)
  show ?thesis using calc_rest_mag_degenerate [OF v f z] v f n by blast
qed

end
